theory Spec2Isabelle
  imports Main
begin

section \<open>JavaScript values, errors and plain objects\<close>

text \<open>
  The signing-algorithm module is TypeScript; at run time its arguments and the values a
  signer resolves to are untyped JavaScript values. The value type keeps the kinds the
  module tells apart (\<open>typeof\<close>, truthiness, the \<open>in\<close> operator): the primitives, a
  byte array (\<open>Uint8Array\<close>) and a plain object given by its own properties. Functions
  occur as registry values only, in the type \<open>impl\<close> below.
\<close>

datatype jsvalue =
    JUndefined
  | JNull
  | JBool bool
  | JNum int
  | JStr string
  | JBytes "nat list"
  | JObj "(string \<times> jsvalue) list"

text \<open>A thrown value: \<open>new Error(message)\<close>, or the \<open>TypeError\<close> the runtime raises.\<close>

datatype error = Error string | TypeError string

fun typeof :: "jsvalue \<Rightarrow> string" where
  "typeof JUndefined = ''undefined''"
| "typeof JNull = ''object''"
| "typeof (JBool b) = ''boolean''"
| "typeof (JNum n) = ''number''"
| "typeof (JStr s) = ''string''"
| "typeof (JBytes bs) = ''object''"
| "typeof (JObj ps) = ''object''"

fun truthy :: "jsvalue \<Rightarrow> bool" where
  "truthy JUndefined = False"
| "truthy JNull = False"
| "truthy (JBool b) = b"
| "truthy (JNum n) = (n \<noteq> 0)"
| "truthy (JStr s) = (s \<noteq> [])"
| "truthy (JBytes bs) = True"
| "truthy (JObj ps) = True"

text \<open>
  The property names every plain object inherits from \<open>Object.prototype\<close>: a lookup
  \<open>obj[k]\<close> and a test \<open>k in obj\<close> on an object literal both follow the prototype chain.
\<close>

definition Object_prototype :: "string list" where
  "Object_prototype =
     [''constructor'', ''__defineGetter__'', ''__defineSetter__'', ''hasOwnProperty'',
      ''__lookupGetter__'', ''__lookupSetter__'', ''isPrototypeOf'',
      ''propertyIsEnumerable'', ''toString'', ''valueOf'', ''__proto__'',
      ''toLocaleString'']"

text \<open>
  \<open>k in v\<close> on a signer's result. The source applies it with the keys \<open>'r'\<close> and \<open>'s'\<close>
  only, behind \<open>typeof v === 'object'\<close>; on \<open>null\<close> (and on any primitive) the operator
  throws a \<open>TypeError\<close> (its message is the engine's). A byte array has its indices
  as own properties, and none of its prototypes defines \<open>r\<close> or \<open>s\<close>; keys that are
  indices or typed-array members are not modelled.
\<close>

fun js_in :: "string \<Rightarrow> jsvalue \<Rightarrow> error + bool" where
  "js_in k (JObj ps) = Inr (k \<in> set (map fst ps) \<or> k \<in> set Object_prototype)"
| "js_in k (JBytes bs) = Inr (k \<in> set Object_prototype)"
| "js_in k v =
     Inl (TypeError (''Cannot use 'in' operator to search for '' @ [CHR 0x27] @ k @ [CHR 0x27]))"

section \<open>Signers and signer algorithms\<close>

text \<open>
  A \<open>Signer\<close> is an external, possibly stateful capability: called on the payload in a
  state \<open>'s\<close> of the outside world it settles with a value or an error and leaves a new
  state. A \<open>SignerAlgorithm\<close> is the async function \<open>sign(payload, signer)\<close>; a
  rejected promise is the \<open>Inl\<close> result. The adapters contain no loop: they settle
  whenever the signer does, and a signer that never settles is not among the signers here.
\<close>

type_synonym 's Signer = "string \<Rightarrow> 's \<Rightarrow> (error + jsvalue) \<times> 's"

type_synonym 's SignerAlgorithm = "string \<Rightarrow> 's Signer \<Rightarrow> 's \<Rightarrow> (error + jsvalue) \<times> 's"

text \<open>
  Modelled from the spec: the object \<open>fromJose\<close> returns (its type is declared in the
  missing \<open>./util.js\<close>). The specification names its parts as those of an
  \<open>EcdsaSignature\<close>, \<open>{ r: bytes, s: bytes, recoveryParam?: 0|1 }\<close>; the adapters read
  \<open>recoveryParam\<close> only, which is absent when \<open>undefined\<close>.
\<close>

record jose_parts =
  jose_r :: "nat list"
  jose_s :: "nat list"
  jose_recoveryParam :: "nat option"

text \<open>
  \<open>toJose\<close> and \<open>fromJose\<close> are imported from \<open>./util.js\<close>, which is not among the
  sources: the adapters take them as parameters. \<open>toJose(signature, recoverable?)\<close>
  returns a string or throws; \<open>fromJose(signature)\<close> returns the decoded parts or throws.
\<close>

record util =
  toJose :: "jsvalue \<Rightarrow> bool option \<Rightarrow> error + string"
  fromJose :: "jsvalue \<Rightarrow> error + jose_parts"

definition instanceOfEcdsaSignature :: "jsvalue \<Rightarrow> error + bool" where
  "instanceOfEcdsaSignature object =
     (if typeof object = ''object'' then
        (case js_in ''r'' object of
           Inl e \<Rightarrow> Inl e
         | Inr False \<Rightarrow> Inr False
         | Inr True \<Rightarrow> js_in ''s'' object)
      else Inr False)"

definition ES256SignerAlg :: "util \<Rightarrow> 's SignerAlgorithm" where
  "ES256SignerAlg u payload signer st =
     (case signer payload st of
        (Inl e, st') \<Rightarrow> (Inl e, st')
      | (Inr signature, st') \<Rightarrow>
          (case instanceOfEcdsaSignature signature of
             Inl e \<Rightarrow> (Inl e, st')
           | Inr True \<Rightarrow> (map_sum id JStr (toJose u signature None), st')
           | Inr False \<Rightarrow> (Inr signature, st')))"

definition ES256KSignerAlg :: "util \<Rightarrow> bool option \<Rightarrow> 's SignerAlgorithm" where
  "ES256KSignerAlg u recoverable payload signer st =
     (case signer payload st of
        (Inl e, st') \<Rightarrow> (Inl e, st')
      | (Inr signature, st') \<Rightarrow>
          (case instanceOfEcdsaSignature signature of
             Inl e \<Rightarrow> (Inl e, st')
           | Inr True \<Rightarrow> (map_sum id JStr (toJose u signature recoverable), st')
           | Inr False \<Rightarrow>
               (if recoverable = Some True then
                  (case fromJose u signature of
                     Inl e \<Rightarrow> (Inl e, st')
                   | Inr parts \<Rightarrow>
                       (if jose_recoveryParam parts = None then
                          (Inl (Error ''not_supported: ES256K-R not supported when signer doesn't provide a recovery param''), st')
                        else (Inr signature, st')))
                else (Inr signature, st'))))"

definition Ed25519SignerAlg :: "'s SignerAlgorithm" where
  "Ed25519SignerAlg payload signer st =
     (case signer payload st of
        (Inl e, st') \<Rightarrow> (Inl e, st')
      | (Inr signature, st') \<Rightarrow>
          (case instanceOfEcdsaSignature signature of
             Inl e \<Rightarrow> (Inl e, st')
           | Inr False \<Rightarrow> (Inr signature, st')
           | Inr True \<Rightarrow>
               (Inl (Error ''invalid_config: expected a signer function that returns a string instead of signature object''), st')))"

section \<open>The algorithm registry\<close>

text \<open>
  A value stored in, or read from, the \<open>algorithms\<close> object: a function taking
  \<open>(payload, signer)\<close>, a member inherited from \<open>Object.prototype\<close> (a built-in
  function, or the prototype object itself for \<open>__proto__\<close>), or any other value.
\<close>

datatype 's impl =
    Fn "'s SignerAlgorithm"
  | ObjectPrototypeMember string
  | Value jsvalue

fun typeof_impl :: "'s impl \<Rightarrow> string" where
  "typeof_impl (Fn f) = ''function''"
| "typeof_impl (ObjectPrototypeMember k) = (if k = ''__proto__'' then ''object'' else ''function'')"
| "typeof_impl (Value v) = typeof v"

fun truthy_impl :: "'s impl \<Rightarrow> bool" where
  "truthy_impl (Fn f) = True"
| "truthy_impl (ObjectPrototypeMember k) = True"
| "truthy_impl (Value v) = truthy v"

text \<open>The object's own properties; its prototype is \<open>Object.prototype\<close>.\<close>

type_synonym 's SignerAlgorithms = "string \<rightharpoonup> 's impl"

text \<open>\<open>algs[k]\<close>: the own property, else the inherited one, else \<open>undefined\<close>.\<close>

definition get_property :: "'s SignerAlgorithms \<Rightarrow> string \<Rightarrow> 's impl" where
  "get_property algs k =
     (case algs k of
        Some v \<Rightarrow> v
      | None \<Rightarrow> if k \<in> set Object_prototype then ObjectPrototypeMember k else Value JUndefined)"

text \<open>\<open>k in algs\<close>.\<close>

definition has_property :: "string \<Rightarrow> 's SignerAlgorithms \<Rightarrow> bool" where
  "has_property k algs = (algs k \<noteq> None \<or> k \<in> set Object_prototype)"

definition algorithms :: "util \<Rightarrow> 's SignerAlgorithms" where
  "algorithms u =
     [''ES256'' \<mapsto> Fn (ES256SignerAlg u),
      ''ES256K'' \<mapsto> Fn (ES256KSignerAlg u None),
      ''ES256K-R'' \<mapsto> Fn (ES256KSignerAlg u (Some True)),
      ''Ed25519'' \<mapsto> Fn Ed25519SignerAlg,
      ''EdDSA'' \<mapsto> Fn Ed25519SignerAlg]"

text \<open>
  Both registry operations run against the module-level object: they take the current
  object and return their outcome with the object they leave (a throw keeps whatever was
  written before it).
\<close>

definition SignerAlg :: "string \<Rightarrow> 's SignerAlgorithms \<Rightarrow> (error + 's impl) \<times> 's SignerAlgorithms" where
  "SignerAlg alg algs =
     (let impl = get_property algs alg in
      if \<not> truthy_impl impl then
        (Inl (Error (''not_supported: Unsupported algorithm '' @ alg)), algs)
      else (Inr impl, algs))"

text \<open>
  The first equation is a call with a string; the second is \<open>typeof alg !== 'string'\<close>.
  For a string, \<open>!alg\<close> holds exactly when it is empty.
\<close>

fun AddSigningAlgorithm ::
  "jsvalue \<Rightarrow> 's impl \<Rightarrow> 's SignerAlgorithms \<Rightarrow> (error + unit) \<times> 's SignerAlgorithms" where
  "AddSigningAlgorithm (JStr alg) impl algs =
     (if alg = [] then
        (Inl (Error ''Invalid algorithm name: must be a non-empty string''), algs)
      else if \<not> truthy_impl impl \<or> typeof_impl impl \<noteq> ''function'' then
        (Inl (Error ''Invalid implementation: must be a function''), algs)
      else if has_property alg algs then
        (Inl (Error (''Algorithm '' @ [CHR 0x27] @ alg @ [CHR 0x27] @ '' already exists'')), algs)
      else (Inr (), algs(alg \<mapsto> impl)))"
| "AddSigningAlgorithm alg impl algs =
     (Inl (Error ''Invalid algorithm name: must be a non-empty string''), algs)"

text \<open>
  A client of the module: a sequence of calls against the module-level object. A call
  that throws leaves the object as it is at the throw, and the next call runs on it.
\<close>

datatype 's call =
    Call_SignerAlg string
  | Call_AddSigningAlgorithm jsvalue "'s impl"

fun perform :: "'s call \<Rightarrow> 's SignerAlgorithms \<Rightarrow> 's SignerAlgorithms" where
  "perform (Call_SignerAlg alg) algs = snd (SignerAlg alg algs)"
| "perform (Call_AddSigningAlgorithm alg impl) algs = snd (AddSigningAlgorithm alg impl algs)"

fun run :: "'s call list \<Rightarrow> 's SignerAlgorithms \<Rightarrow> 's SignerAlgorithms" where
  "run [] algs = algs"
| "run (c # cs) algs = run cs (perform c algs)"

text \<open>
  An instrumented signer, for counting invocations: the state is paired with the number
  of calls made so far, and every call of the signer adds one.
\<close>

definition counting :: "'s Signer \<Rightarrow> (nat \<times> 's) Signer" where
  "counting signer payload =
     (\<lambda>(n, st). case signer payload st of (res, st') \<Rightarrow> (res, (Suc n, st')))"

section \<open>The JOSE helpers, from the specification\<close>

text \<open>
  \<open>toJose\<close>, \<open>fromJose\<close> and the base64url codec belong to \<open>./util.js\<close>, which is
  missing from the sources. The definitions of this section are written from the
  specification and give one concrete instance, \<open>spec_util\<close>, of the parameter \<open>util\<close>;
  the theorems about the adapters hold for every instance.
\<close>

text \<open>
  Modelled from the spec: the base64url alphabet of \<open>bytesToBase64url\<close> (missing
  \<open>./util.js\<close>); the specification names the encoding base64url.
\<close>

definition base64url_alphabet :: string where
  "base64url_alphabet =
     ''ABCDEFGHIJKLMNOPQRSTUVWXYZabcdefghijklmnopqrstuvwxyz0123456789-_''"

text \<open>
  Modelled from the spec: \<open>bytesToBase64url\<close> (missing \<open>./util.js\<close>), base64url with
  "no padding characters": three bytes give four characters, a rest of two bytes three,
  a rest of one byte two.
\<close>

fun bytesToBase64url :: "nat list \<Rightarrow> string" where
  "bytesToBase64url (a # b # c # rest) =
     [base64url_alphabet ! (a div 4),
      base64url_alphabet ! ((a mod 4) * 16 + b div 16),
      base64url_alphabet ! ((b mod 16) * 4 + c div 64),
      base64url_alphabet ! (c mod 64)] @ bytesToBase64url rest"
| "bytesToBase64url [a, b] =
     [base64url_alphabet ! (a div 4),
      base64url_alphabet ! ((a mod 4) * 16 + b div 16),
      base64url_alphabet ! ((b mod 16) * 4)]"
| "bytesToBase64url [a] =
     [base64url_alphabet ! (a div 4),
      base64url_alphabet ! ((a mod 4) * 16)]"
| "bytesToBase64url [] = []"

text \<open>
  Modelled from the spec: \<open>base64ToBytes\<close> (missing \<open>./util.js\<close>), the inverse codec,
  with its three auxiliaries: the position of a character in the alphabet, the text as
  six-bit digits (none when a character is outside the alphabet), and the digits
  regrouped into bytes.
\<close>

fun index_of :: "'a \<Rightarrow> 'a list \<Rightarrow> nat option" where
  "index_of x [] = None"
| "index_of x (y # ys) = (if x = y then Some 0 else map_option Suc (index_of x ys))"

fun sextets :: "string \<Rightarrow> nat list option" where
  "sextets [] = Some []"
| "sextets (c # cs) =
     (case index_of c base64url_alphabet of
        None \<Rightarrow> None
      | Some d \<Rightarrow> map_option ((#) d) (sextets cs))"

fun sextetsToBytes :: "nat list \<Rightarrow> nat list" where
  "sextetsToBytes (a # b # c # d # rest) =
     [a * 4 + b div 16, (b mod 16) * 16 + c div 4, (c mod 4) * 64 + d] @ sextetsToBytes rest"
| "sextetsToBytes [a, b, c] = [a * 4 + b div 16, (b mod 16) * 16 + c div 4]"
| "sextetsToBytes [a, b] = [a * 4 + b div 16]"
| "sextetsToBytes ds = []"

definition base64ToBytes :: "string \<Rightarrow> nat list option" where
  "base64ToBytes str = map_option sextetsToBytes (sextets str)"

text \<open>
  Modelled from the spec: \<open>toJose\<close> (missing \<open>./util.js\<close>). The specification gives an
  \<open>EcdsaSignature\<close> as \<open>{ r: bytes, s: bytes, recoveryParam?: 0|1 }\<close> and the encoding as
  "encode r\<parallel>s (and, for the -R variant, append the recovery byte) as base64url". It is
  silent on a signature without byte-valued \<open>r\<close> and \<open>s\<close> and on a recovery byte that
  is to be appended but absent; there the model fails.
\<close>

definition toJose_spec :: "jsvalue \<Rightarrow> bool option \<Rightarrow> error + string" where
  "toJose_spec signature recoverable =
     (case signature of
        JObj ps \<Rightarrow>
          (case (map_of ps ''r'', map_of ps ''s'') of
             (Some (JBytes r), Some (JBytes s)) \<Rightarrow>
               (if recoverable = Some True then
                  (case map_of ps ''recoveryParam'' of
                     Some (JNum n) \<Rightarrow> Inr (bytesToBase64url (r @ s @ [nat n]))
                   | _ \<Rightarrow> Inl (Error ''no recovery byte to append''))
                else Inr (bytesToBase64url (r @ s)))
           | _ \<Rightarrow> Inl (TypeError ''r and s are not bytes''))
      | _ \<Rightarrow> Inl (TypeError ''not a signature object''))"

text \<open>
  Modelled from the spec: \<open>fromJose\<close> (missing \<open>./util.js\<close>), the decoding of a
  pre-encoded signature. The specification speaks of a pre-encoded signature "lacking a
  recovery byte"; for ES256 and ES256K \<open>r\<close> and \<open>s\<close> are 32 bytes each, so the recovery
  byte is the 65th byte when there is one. Text that is not base64url, and a value that
  is not a string, make the model fail.
\<close>

definition fromJose_spec :: "jsvalue \<Rightarrow> error + jose_parts" where
  "fromJose_spec signature =
     (case signature of
        JStr str \<Rightarrow>
          (case base64ToBytes str of
             None \<Rightarrow> Inl (TypeError ''not base64url'')
           | Some bytes \<Rightarrow>
               Inr \<lparr>jose_r = take 32 bytes,
                    jose_s = take 32 (drop 32 bytes),
                    jose_recoveryParam =
                      (if 64 < length bytes then Some (bytes ! 64) else None)\<rparr>)
      | _ \<Rightarrow> Inl (TypeError ''not a string''))"

text \<open>
  Modelled from the spec: the two helpers of the missing \<open>./util.js\<close> that the adapters
  import, as one instance of \<open>util\<close>.
\<close>

definition spec_util :: util where
  "spec_util = \<lparr>toJose = toJose_spec, fromJose = fromJose_spec\<rparr>"

section \<open>Values and the classification of a signer's result\<close>

lemma typeof_not_function: "typeof v \<noteq> ''function''"
  by (cases v) simp_all

lemma callable_truthy: "typeof_impl impl = ''function'' \<Longrightarrow> truthy_impl impl"
  by (cases impl) (simp_all add: typeof_not_function)

lemma instanceOfEcdsaSignature_JObj:
  "instanceOfEcdsaSignature (JObj ps) = Inr (''r'' \<in> fst ` set ps \<and> ''s'' \<in> fst ` set ps)"
  by (simp add: instanceOfEcdsaSignature_def Object_prototype_def split: bool.splits)

lemma instanceOfEcdsaSignature_JBytes: "instanceOfEcdsaSignature (JBytes bs) = Inr False"
  by (simp add: instanceOfEcdsaSignature_def Object_prototype_def)

lemma instanceOfEcdsaSignature_JStr: "instanceOfEcdsaSignature (JStr str) = Inr False"
  by (simp add: instanceOfEcdsaSignature_def)

text \<open>\<open>typeof null\<close> is \<open>'object'\<close>, so \<open>'r' in null\<close> is evaluated and throws.\<close>

lemma instanceOfEcdsaSignature_JNull: "isl (instanceOfEcdsaSignature JNull)"
  by (simp add: instanceOfEcdsaSignature_def)

lemma instanceOfEcdsaSignature_True_iff:
  "instanceOfEcdsaSignature v = Inr True \<longleftrightarrow>
     (\<exists>ps. v = JObj ps \<and> ''r'' \<in> fst ` set ps \<and> ''s'' \<in> fst ` set ps)"
  by (cases v)
    (simp_all add: instanceOfEcdsaSignature_def Object_prototype_def split: bool.splits)

lemma map_of_keys: "map_of ps k = Some v \<Longrightarrow> k \<in> fst ` set ps"
  by (metis map_of_eq_None_iff option.distinct(1))

lemma toJose_spec_plain:
  "map_of ps ''r'' = Some (JBytes r) \<Longrightarrow> map_of ps ''s'' = Some (JBytes s) \<Longrightarrow>
   recoverable \<noteq> Some True \<Longrightarrow>
   toJose_spec (JObj ps) recoverable = Inr (bytesToBase64url (r @ s))"
  by (simp add: toJose_spec_def)

lemma toJose_spec_recoverable:
  "map_of ps ''r'' = Some (JBytes r) \<Longrightarrow> map_of ps ''s'' = Some (JBytes s) \<Longrightarrow>
   map_of ps ''recoveryParam'' = Some (JNum n) \<Longrightarrow>
   toJose_spec (JObj ps) (Some True) = Inr (bytesToBase64url (r @ s @ [nat n]))"
  by (simp add: toJose_spec_def)

section \<open>The registry in its initial state\<close>

lemma algorithms_builtin:
  "algorithms u ''ES256'' = Some (Fn (ES256SignerAlg u))"
  "algorithms u ''ES256K'' = Some (Fn (ES256KSignerAlg u None))"
  "algorithms u ''ES256K-R'' = Some (Fn (ES256KSignerAlg u (Some True)))"
  "algorithms u ''Ed25519'' = Some (Fn Ed25519SignerAlg)"
  "algorithms u ''EdDSA'' = Some (Fn Ed25519SignerAlg)"
  by (simp_all add: algorithms_def)

lemma algorithms_entries:
  "algorithms u alg = Some (Fn a) \<Longrightarrow>
     a = ES256SignerAlg u \<or> a = ES256KSignerAlg u None \<or>
     a = ES256KSignerAlg u (Some True) \<or> a = Ed25519SignerAlg"
  by (auto simp: algorithms_def split: if_splits)

lemma dom_algorithms:
  "dom (algorithms u) = {''ES256'', ''ES256K'', ''ES256K-R'', ''Ed25519'', ''EdDSA''}"
  by (auto simp: algorithms_def split: if_splits)

text \<open>
  What \<open>SignerAlg\<close> does on the initial object, for every identifier: the five own
  entries, then the names found on the prototype chain, and only then the error.
\<close>

lemma SignerAlg_initial:
  "fst (SignerAlg alg (algorithms u)) =
     (if alg = ''ES256'' then Inr (Fn (ES256SignerAlg u))
      else if alg = ''ES256K'' then Inr (Fn (ES256KSignerAlg u None))
      else if alg = ''ES256K-R'' then Inr (Fn (ES256KSignerAlg u (Some True)))
      else if alg = ''Ed25519'' \<or> alg = ''EdDSA'' then Inr (Fn Ed25519SignerAlg)
      else if alg \<in> set Object_prototype then Inr (ObjectPrototypeMember alg)
      else Inl (Error (''not_supported: Unsupported algorithm '' @ alg)))"
  by (simp add: SignerAlg_def get_property_def algorithms_def Let_def)

text \<open>
  C1. In the initial registry \<open>SignerAlg(alg)\<close> returns an adapter exactly for \<open>ES256\<close>,
  \<open>ES256K\<close>, \<open>ES256K-R\<close>, \<open>Ed25519\<close> and \<open>EdDSA\<close>, and fails with
  \<open>not_supported: Unsupported algorithm ...\<close> for every other identifier. The code does
  not: \<open>algorithms[alg]\<close> follows the prototype chain, so for \<open>alg = 'constructor'\<close>, which
  is no entry of the registry, the lookup yields the inherited \<open>Object\<close> function, the
  guard \<open>!impl\<close> does not fire, and that function is returned in place of the error.
\<close>

theorem SignerAlg_returns_inherited_member:
  "algorithms u ''constructor'' = None \<and>
   SignerAlg ''constructor'' (algorithms u) =
     (Inr (ObjectPrototypeMember ''constructor''), algorithms u)"
  by (simp add: SignerAlg_def get_property_def algorithms_def Object_prototype_def)

section \<open>Registration\<close>

text \<open>
  The checks of \<open>AddSigningAlgorithm\<close> in the order the code makes them. Presence is the
  code's test \<open>alg in algorithms\<close>, which holds for own entries and for inherited names.
\<close>

lemma AddSigningAlgorithm_contract:
  "(alg = [] \<longrightarrow>
      AddSigningAlgorithm (JStr alg) impl algs =
        (Inl (Error ''Invalid algorithm name: must be a non-empty string''), algs)) \<and>
   (alg \<noteq> [] \<and> typeof_impl impl \<noteq> ''function'' \<longrightarrow>
      AddSigningAlgorithm (JStr alg) impl algs =
        (Inl (Error ''Invalid implementation: must be a function''), algs)) \<and>
   (alg \<noteq> [] \<and> typeof_impl impl = ''function'' \<and> has_property alg algs \<longrightarrow>
      AddSigningAlgorithm (JStr alg) impl algs =
        (Inl (Error (''Algorithm '' @ [CHR 0x27] @ alg @ [CHR 0x27] @ '' already exists'')),
         algs)) \<and>
   (alg \<noteq> [] \<and> typeof_impl impl = ''function'' \<and> \<not> has_property alg algs \<longrightarrow>
      AddSigningAlgorithm (JStr alg) impl algs = (Inr (), algs(alg \<mapsto> impl)) \<and>
      SignerAlg alg (algs(alg \<mapsto> impl)) = (Inr impl, algs(alg \<mapsto> impl)))"
  by (auto simp: callable_truthy SignerAlg_def get_property_def)

text \<open>
  C2. \<open>AddSigningAlgorithm(alg, impl)\<close> fails with \<open>Invalid algorithm name\<close> for an empty
  \<open>alg\<close>, with \<open>Invalid implementation\<close> for an \<open>impl\<close> that is not callable, with
  \<open>Algorithm ... already exists\<close> when \<open>alg\<close> is already present in the registry, and
  otherwise succeeds, after which \<open>SignerAlg(alg)\<close> returns \<open>impl\<close>. The code does all
  of this for names off the prototype chain (the lemma above), but \<open>alg in algorithms\<close>
  also holds for inherited names: registering a callable under \<open>'toString'\<close>, which the
  registry does not hold, is refused as a duplicate.
\<close>

theorem AddSigningAlgorithm_refuses_inherited_name:
  "algorithms u ''toString'' = None \<and>
   typeof_impl (Fn a) = ''function'' \<and>
   AddSigningAlgorithm (JStr ''toString'') (Fn a) (algorithms u) =
     (Inl (Error ''Algorithm 'toString' already exists''), algorithms u)"
  by (simp add: has_property_def Object_prototype_def algorithms_def)

section \<open>The registry over time\<close>

lemma SignerAlg_state: "snd (SignerAlg alg algs) = algs"
  by (simp add: SignerAlg_def Let_def)

lemma SignerAlg_resolves_has_property:
  "fst (SignerAlg k algs) = Inr a \<Longrightarrow> has_property k algs \<and> get_property algs k = a"
  by (auto simp: SignerAlg_def Let_def get_property_def has_property_def
      split: if_splits option.splits)

lemma AddSigningAlgorithm_failure_state:
  "isl (fst (AddSigningAlgorithm alg impl algs)) \<Longrightarrow>
   snd (AddSigningAlgorithm alg impl algs) = algs"
  by (cases "(alg, impl, algs)" rule: AddSigningAlgorithm.cases) (auto split: if_splits)

text \<open>A registration writes nothing, or one key that was not there.\<close>

lemma AddSigningAlgorithm_state:
  "snd (AddSigningAlgorithm alg impl algs) = algs \<or>
   (\<exists>k. alg = JStr k \<and> \<not> has_property k algs \<and>
        snd (AddSigningAlgorithm alg impl algs) = algs(k \<mapsto> impl))"
  by (cases "(alg, impl, algs)" rule: AddSigningAlgorithm.cases) (auto split: if_splits)

lemma perform_keeps:
  assumes "has_property k algs"
  shows "perform c algs k = algs k"
proof (cases c)
  case (Call_SignerAlg alg)
  then show ?thesis by (simp add: SignerAlg_state)
next
  case (Call_AddSigningAlgorithm alg impl)
  from AddSigningAlgorithm_state [of alg impl algs] assms show ?thesis
    unfolding Call_AddSigningAlgorithm by auto
qed

lemma run_keeps: "has_property k algs \<Longrightarrow> run cs algs k = algs k"
proof (induction cs arbitrary: algs)
  case Nil
  then show ?case by simp
next
  case (Cons c cs)
  from Cons.prems have eq: "perform c algs k = algs k" by (rule perform_keeps)
  with Cons.prems have "has_property k (perform c algs)" by (simp add: has_property_def)
  then have "run cs (perform c algs) k = perform c algs k" by (rule Cons.IH)
  with eq show ?case by simp
qed

lemma run_has_property: "has_property k algs \<Longrightarrow> has_property k (run cs algs)"
  using run_keeps [of k algs cs] by (simp add: has_property_def)

lemma run_get_property:
  "has_property k algs \<Longrightarrow> get_property (run cs algs) k = get_property algs k"
  using run_keeps [of k algs cs] by (simp add: get_property_def)

text \<open>
  C3. The registry is append-only with unique keys. Starting from any registry \<open>algs\<close>
  and for every sequence \<open>cs\<close> of \<open>SignerAlg\<close> and \<open>AddSigningAlgorithm\<close> calls: an entry
  \<open>k \<mapsto> v\<close> of \<open>algs\<close> is still \<open>k \<mapsto> v\<close> afterwards (neither removed nor replaced), and
  a registration under \<open>k\<close> then fails, whatever the implementation; an identifier that
  resolved to \<open>a\<close> before the calls resolves to the same \<open>a\<close> after them.
\<close>

theorem registry_append_only:
  "(algs k = Some v \<longrightarrow>
      run cs algs k = Some v \<and>
      isl (fst (AddSigningAlgorithm (JStr k) impl (run cs algs)))) \<and>
   (fst (SignerAlg k algs) = Inr a \<longrightarrow> fst (SignerAlg k (run cs algs)) = Inr a)"
proof (intro conjI impI)
  assume own: "algs k = Some v"
  then have h: "has_property k algs" by (simp add: has_property_def)
  with own show "run cs algs k = Some v" by (simp add: run_keeps)
  from h have "has_property k (run cs algs)" by (rule run_has_property)
  then show "isl (fst (AddSigningAlgorithm (JStr k) impl (run cs algs)))" by simp
next
  assume r: "fst (SignerAlg k algs) = Inr a"
  then have "has_property k algs" by (simp add: SignerAlg_resolves_has_property)
  with r show "fst (SignerAlg k (run cs algs)) = Inr a"
    by (simp add: SignerAlg_def Let_def run_get_property split: if_splits)
qed

theorem registry_append_only_witness:
  "run [Call_AddSigningAlgorithm (JStr ''ES256'') (Fn Ed25519SignerAlg),
        Call_AddSigningAlgorithm (JStr ''HS256'') (Fn Ed25519SignerAlg),
        Call_SignerAlg ''none'']
     (algorithms spec_util :: unit SignerAlgorithms) ''ES256'' =
     Some (Fn (ES256SignerAlg spec_util)) \<and>
   isl (fst (AddSigningAlgorithm (JStr ''ES256'') (Fn Ed25519SignerAlg)
     (run [Call_AddSigningAlgorithm (JStr ''ES256'') (Fn Ed25519SignerAlg),
           Call_AddSigningAlgorithm (JStr ''HS256'') (Fn Ed25519SignerAlg),
           Call_SignerAlg ''none'']
        (algorithms spec_util :: unit SignerAlgorithms)))) \<and>
   fst (SignerAlg ''ES256''
     (run [Call_AddSigningAlgorithm (JStr ''ES256'') (Fn Ed25519SignerAlg),
           Call_AddSigningAlgorithm (JStr ''HS256'') (Fn Ed25519SignerAlg),
           Call_SignerAlg ''none'']
        (algorithms spec_util :: unit SignerAlgorithms))) =
     Inr (Fn (ES256SignerAlg spec_util))"
  using registry_append_only
    [where algs = "algorithms spec_util :: unit SignerAlgorithms" and k = "''ES256''"
       and v = "Fn (ES256SignerAlg spec_util)" and a = "Fn (ES256SignerAlg spec_util)"
       and impl = "Fn Ed25519SignerAlg"
       and cs = "[Call_AddSigningAlgorithm (JStr ''ES256'') (Fn Ed25519SignerAlg),
                  Call_AddSigningAlgorithm (JStr ''HS256'') (Fn Ed25519SignerAlg),
                  Call_SignerAlg ''none'']"]
  by (simp add: algorithms_builtin SignerAlg_initial)

text \<open>
  C4. The built-in entries \<open>Ed25519\<close> and \<open>EdDSA\<close> are aliases: resolving either name in
  the initial registry yields an adapter, and the two adapters are the same function, so
  that for every payload, signer and state of the signer they settle alike (same
  signature string, same error, same effect on the signer).
\<close>

theorem Ed25519_EdDSA_alias:
  "\<exists>a b. fst (SignerAlg ''Ed25519'' (algorithms u)) = Inr (Fn a) \<and>
         fst (SignerAlg ''EdDSA'' (algorithms u)) = Inr (Fn b) \<and>
         a = b \<and> (\<forall>payload signer st. a payload signer st = b payload signer st)"
  by (simp add: SignerAlg_initial)

text \<open>
  C10. Registry operations are atomic on error. A call of \<open>AddSigningAlgorithm\<close> that
  fails (for whichever of its three reasons, or for a name that is not a string) leaves
  the registry exactly as it was, so that every identifier resolves afterwards as it did
  before; and \<open>SignerAlg\<close> never changes the registry, whether it returns or throws.
\<close>

theorem registry_calls_atomic:
  "(isl (fst (AddSigningAlgorithm alg impl algs)) \<longrightarrow>
      snd (AddSigningAlgorithm alg impl algs) = algs \<and>
      SignerAlg k (snd (AddSigningAlgorithm alg impl algs)) = SignerAlg k algs) \<and>
   snd (SignerAlg k algs) = algs"
  by (simp add: AddSigningAlgorithm_failure_state SignerAlg_state)

theorem registry_calls_atomic_witness:
  "isl (fst (AddSigningAlgorithm (JStr ''ES256'') (Fn Ed25519SignerAlg)
     (algorithms spec_util :: unit SignerAlgorithms))) \<and>
   snd (AddSigningAlgorithm (JStr ''ES256'') (Fn Ed25519SignerAlg)
     (algorithms spec_util :: unit SignerAlgorithms)) = algorithms spec_util \<and>
   isl (fst (AddSigningAlgorithm (JStr []) (Fn Ed25519SignerAlg)
     (algorithms spec_util :: unit SignerAlgorithms))) \<and>
   snd (AddSigningAlgorithm (JStr []) (Fn Ed25519SignerAlg)
     (algorithms spec_util :: unit SignerAlgorithms)) = algorithms spec_util \<and>
   isl (fst (AddSigningAlgorithm (JStr ''HS256'') (Value JNull)
     (algorithms spec_util :: unit SignerAlgorithms))) \<and>
   snd (AddSigningAlgorithm (JStr ''HS256'') (Value JNull)
     (algorithms spec_util :: unit SignerAlgorithms)) = algorithms spec_util \<and>
   snd (SignerAlg ''none'' (algorithms spec_util :: unit SignerAlgorithms)) =
     algorithms spec_util"
  using registry_calls_atomic
      [where alg = "JStr ''ES256''" and impl = "Fn Ed25519SignerAlg"
         and algs = "algorithms spec_util :: unit SignerAlgorithms" and k = "''none''"]
    registry_calls_atomic
      [where alg = "JStr []" and impl = "Fn Ed25519SignerAlg"
         and algs = "algorithms spec_util :: unit SignerAlgorithms" and k = "''none''"]
    registry_calls_atomic
      [where alg = "JStr ''HS256''" and impl = "Value JNull :: unit impl"
         and algs = "algorithms spec_util :: unit SignerAlgorithms" and k = "''none''"]
  by (simp add: has_property_def algorithms_builtin)

section \<open>The built-in adapters\<close>

lemma ES256SignerAlg_once:
  "snd (ES256SignerAlg u payload signer st) = snd (signer payload st) \<and>
   (fst (signer payload st) = Inl e \<longrightarrow> fst (ES256SignerAlg u payload signer st) = Inl e)"
  by (simp add: ES256SignerAlg_def split: prod.splits sum.splits bool.splits)

lemma ES256KSignerAlg_once:
  "snd (ES256KSignerAlg u recoverable payload signer st) = snd (signer payload st) \<and>
   (fst (signer payload st) = Inl e \<longrightarrow>
      fst (ES256KSignerAlg u recoverable payload signer st) = Inl e)"
  by (simp add: ES256KSignerAlg_def split: prod.splits sum.splits bool.splits)

lemma Ed25519SignerAlg_once:
  "snd (Ed25519SignerAlg payload signer st) = snd (signer payload st) \<and>
   (fst (signer payload st) = Inl e \<longrightarrow> fst (Ed25519SignerAlg payload signer st) = Inl e)"
  by (simp add: Ed25519SignerAlg_def split: prod.splits sum.splits bool.splits)

lemma counting_fst: "fst (counting signer payload (n, st)) = fst (signer payload st)"
  by (simp add: counting_def split: prod.splits)

lemma counting_snd: "snd (counting signer payload (n, st)) = (Suc n, snd (signer payload st))"
  by (simp add: counting_def split: prod.splits)

text \<open>
  C5. The \<open>ES256\<close> and \<open>ES256K\<close> adapters (\<open>ES256SignerAlg()\<close> and \<open>ES256KSignerAlg()\<close>,
  the latter without the recoverable flag), for every signer, payload and \<open>toJose\<close>.
  When the signer resolves to a structured signature, an object with \<open>r\<close> and \<open>s\<close>, the
  adapter settles as \<open>toJose(signature)\<close> does, called without the recoverable flag and
  so adding no recovery byte: with the JOSE string it returns (or the error it throws).
  When the signer resolves to a string, the adapter returns that string unchanged.
\<close>

theorem EC_adapters_normalise:
  assumes "signer payload st = (Inr signature, st')"
  shows
    "(signature = JObj ps \<and> ''r'' \<in> fst ` set ps \<and> ''s'' \<in> fst ` set ps \<longrightarrow>
        ES256SignerAlg u payload signer st =
          (map_sum id JStr (toJose u signature None), st') \<and>
        ES256KSignerAlg u None payload signer st =
          (map_sum id JStr (toJose u signature None), st')) \<and>
     (signature = JStr str \<longrightarrow>
        ES256SignerAlg u payload signer st = (Inr (JStr str), st') \<and>
        ES256KSignerAlg u None payload signer st = (Inr (JStr str), st'))"
  using assms
  by (auto simp: ES256SignerAlg_def ES256KSignerAlg_def instanceOfEcdsaSignature_JObj
      instanceOfEcdsaSignature_JStr)

theorem EC_adapters_normalise_witness:
  "ES256SignerAlg spec_util ''payload''
     (\<lambda>p st. (Inr (JObj [(''r'', JBytes [1, 2, 3]), (''s'', JBytes [4, 5, 6])]), Suc st))
     (0::nat) =
     (Inr (JStr ''AQIDBAUG''), 1) \<and>
   ES256KSignerAlg spec_util None ''payload''
     (\<lambda>p st. (Inr (JObj [(''r'', JBytes [1, 2, 3]), (''s'', JBytes [4, 5, 6])]), Suc st))
     (0::nat) =
     (Inr (JStr ''AQIDBAUG''), 1) \<and>
   ES256SignerAlg spec_util ''payload'' (\<lambda>p st. (Inr (JStr ''c2lnbmF0dXJl''), Suc st))
     (0::nat) =
     (Inr (JStr ''c2lnbmF0dXJl''), 1) \<and>
   ES256KSignerAlg spec_util None ''payload'' (\<lambda>p st. (Inr (JStr ''c2lnbmF0dXJl''), Suc st))
     (0::nat) =
     (Inr (JStr ''c2lnbmF0dXJl''), 1)"
  using
    EC_adapters_normalise
      [where signer =
          "\<lambda>p st. (Inr (JObj [(''r'', JBytes [1, 2, 3]), (''s'', JBytes [4, 5, 6])]), Suc st)"
        and payload = "''payload''" and st = "0::nat" and st' = 1 and u = spec_util
        and ps = "[(''r'', JBytes [1, 2, 3]), (''s'', JBytes [4, 5, 6])]"
        and signature = "JObj [(''r'', JBytes [1, 2, 3]), (''s'', JBytes [4, 5, 6])]"]
    EC_adapters_normalise
      [where signer = "\<lambda>p st. (Inr (JStr ''c2lnbmF0dXJl''), Suc st)"
        and payload = "''payload''" and st = "0::nat" and st' = 1 and u = spec_util
        and str = "''c2lnbmF0dXJl''" and signature = "JStr ''c2lnbmF0dXJl''"]
  by (simp add: spec_util_def toJose_spec_def base64url_alphabet_def)

text \<open>
  C6. The \<open>ES256K-R\<close> adapter, \<open>ES256KSignerAlg(true)\<close>, for every signer, payload,
  \<open>toJose\<close> and \<open>fromJose\<close>. When the signer resolves to a string whose decoding by
  \<open>fromJose\<close> carries no recovery parameter, the adapter fails with \<open>not_supported:
  ES256K-R not supported when signer doesn't provide a recovery param\<close>. When the signer
  resolves to a structured signature, the adapter settles as \<open>toJose(signature, true)\<close>
  does, the call that appends the recovery byte to \<open>r\<parallel>s\<close>.
\<close>

theorem ES256K_R_adapter:
  assumes "signer payload st = (Inr signature, st')"
  shows
    "(signature = JStr str \<and> fromJose u signature = Inr parts \<and>
      jose_recoveryParam parts = None \<longrightarrow>
        ES256KSignerAlg u (Some True) payload signer st =
          (Inl (Error ''not_supported: ES256K-R not supported when signer doesn't provide a recovery param''),
           st')) \<and>
     (signature = JObj ps \<and> ''r'' \<in> fst ` set ps \<and> ''s'' \<in> fst ` set ps \<longrightarrow>
        ES256KSignerAlg u (Some True) payload signer st =
          (map_sum id JStr (toJose u signature (Some True)), st'))"
  using assms
  by (auto simp: ES256KSignerAlg_def instanceOfEcdsaSignature_JObj
      instanceOfEcdsaSignature_JStr)

theorem ES256K_R_adapter_witness:
  "ES256KSignerAlg spec_util (Some True) ''payload''
     (\<lambda>p st. (Inr (JStr ''BwcHBwcHBwcHBwcHBwcHBwcHBwcHBwcHBwcHBwcHBwcHBwcHBwcHBwcHBwcHBwcHBwcHBwcHBwcHBwcHBwcHBw''), Suc st))
     (0::nat) =
     (Inl (Error ''not_supported: ES256K-R not supported when signer doesn't provide a recovery param''),
      1) \<and>
   ES256KSignerAlg spec_util (Some True) ''payload''
     (\<lambda>p st. (Inr (JObj [(''r'', JBytes [1, 2, 3]), (''s'', JBytes [4, 5, 6]),
                         (''recoveryParam'', JNum 1)]), Suc st))
     (0::nat) =
     (Inr (JStr ''AQIDBAUGAQ''), 1)"
  using
    ES256K_R_adapter
      [where signer = "\<lambda>p st. (Inr (JStr ''BwcHBwcHBwcHBwcHBwcHBwcHBwcHBwcHBwcHBwcHBwcHBwcHBwcHBwcHBwcHBwcHBwcHBwcHBwcHBwcHBwcHBw''), Suc st)"
        and payload = "''payload''" and st = "0::nat" and st' = 1 and u = spec_util
        and str = "''BwcHBwcHBwcHBwcHBwcHBwcHBwcHBwcHBwcHBwcHBwcHBwcHBwcHBwcHBwcHBwcHBwcHBwcHBwcHBwcHBwcHBw''"
        and signature = "JStr ''BwcHBwcHBwcHBwcHBwcHBwcHBwcHBwcHBwcHBwcHBwcHBwcHBwcHBwcHBwcHBwcHBwcHBwcHBwcHBwcHBwcHBw''"
        and parts = "projr (fromJose_spec (JStr ''BwcHBwcHBwcHBwcHBwcHBwcHBwcHBwcHBwcHBwcHBwcHBwcHBwcHBwcHBwcHBwcHBwcHBwcHBwcHBwcHBwcHBw''))"]
    ES256K_R_adapter
      [where signer = "\<lambda>p st. (Inr (JObj [(''r'', JBytes [1, 2, 3]), (''s'', JBytes [4, 5, 6]),
                         (''recoveryParam'', JNum 1)]), Suc st)"
        and payload = "''payload''" and st = "0::nat" and st' = 1 and u = spec_util
        and ps = "[(''r'', JBytes [1, 2, 3]), (''s'', JBytes [4, 5, 6]),
                   (''recoveryParam'', JNum 1)]"
        and signature = "JObj [(''r'', JBytes [1, 2, 3]), (''s'', JBytes [4, 5, 6]),
                         (''recoveryParam'', JNum 1)]"]
  by (simp add: spec_util_def toJose_spec_def fromJose_spec_def base64ToBytes_def
      base64url_alphabet_def)

text \<open>
  With the helpers of the specification the strings are explicit: the EC adapters return
  the base64url text of \<open>r\<parallel>s\<close>, and the \<open>ES256K-R\<close> adapter that of \<open>r\<parallel>s\<close> followed by
  the recovery byte.
\<close>

lemma EC_adapters_spec_util:
  assumes "signer payload st = (Inr (JObj ps), st')"
    and "map_of ps ''r'' = Some (JBytes r)" and "map_of ps ''s'' = Some (JBytes s)"
  shows "ES256SignerAlg spec_util payload signer st =
           (Inr (JStr (bytesToBase64url (r @ s))), st')"
    and "ES256KSignerAlg spec_util None payload signer st =
           (Inr (JStr (bytesToBase64url (r @ s))), st')"
proof -
  from assms(2,3) have keys: "''r'' \<in> fst ` set ps" "''s'' \<in> fst ` set ps"
    by (simp_all add: map_of_keys)
  from assms(2,3) have "toJose spec_util (JObj ps) None = Inr (bytesToBase64url (r @ s))"
    by (simp add: spec_util_def toJose_spec_plain)
  with assms(1) keys show
    "ES256SignerAlg spec_util payload signer st = (Inr (JStr (bytesToBase64url (r @ s))), st')"
    "ES256KSignerAlg spec_util None payload signer st =
       (Inr (JStr (bytesToBase64url (r @ s))), st')"
    by (simp_all add: ES256SignerAlg_def ES256KSignerAlg_def instanceOfEcdsaSignature_JObj)
qed

lemma ES256K_R_adapter_spec_util:
  assumes "signer payload st = (Inr (JObj ps), st')"
    and "map_of ps ''r'' = Some (JBytes r)" and "map_of ps ''s'' = Some (JBytes s)"
    and "map_of ps ''recoveryParam'' = Some (JNum n)"
  shows "ES256KSignerAlg spec_util (Some True) payload signer st =
           (Inr (JStr (bytesToBase64url (r @ s @ [nat n]))), st')"
proof -
  from assms(2,3) have keys: "''r'' \<in> fst ` set ps" "''s'' \<in> fst ` set ps"
    by (simp_all add: map_of_keys)
  from assms(2-4) have
    "toJose spec_util (JObj ps) (Some True) = Inr (bytesToBase64url (r @ s @ [nat n]))"
    by (simp add: spec_util_def toJose_spec_recoverable)
  with assms(1) keys show ?thesis
    by (simp add: ES256KSignerAlg_def instanceOfEcdsaSignature_JObj)
qed

text \<open>
  C7. The \<open>EdDSA\<close>/\<open>Ed25519\<close> adapter. When the signer resolves to a string the adapter
  returns it unchanged; when the signer resolves to a structured signature the adapter
  fails with \<open>invalid_config: expected a signer function that returns a string instead
  of signature object\<close>.
\<close>

theorem Ed25519_adapter:
  assumes "signer payload st = (Inr signature, st')"
  shows
    "(signature = JStr str \<longrightarrow>
        Ed25519SignerAlg payload signer st = (Inr (JStr str), st')) \<and>
     (signature = JObj ps \<and> ''r'' \<in> fst ` set ps \<and> ''s'' \<in> fst ` set ps \<longrightarrow>
        Ed25519SignerAlg payload signer st =
          (Inl (Error ''invalid_config: expected a signer function that returns a string instead of signature object''),
           st'))"
  using assms
  by (auto simp: Ed25519SignerAlg_def instanceOfEcdsaSignature_JObj
      instanceOfEcdsaSignature_JStr)

theorem Ed25519_adapter_witness:
  "Ed25519SignerAlg ''payload'' (\<lambda>p st. (Inr (JStr ''c2lnbmF0dXJl''), Suc st)) (0::nat) =
     (Inr (JStr ''c2lnbmF0dXJl''), 1) \<and>
   Ed25519SignerAlg ''payload''
     (\<lambda>p st. (Inr (JObj [(''r'', JBytes [1, 2, 3]), (''s'', JBytes [4, 5, 6])]), Suc st))
     (0::nat) =
     (Inl (Error ''invalid_config: expected a signer function that returns a string instead of signature object''),
      1)"
  using
    Ed25519_adapter
      [where signer = "\<lambda>p st. (Inr (JStr ''c2lnbmF0dXJl''), Suc st)"
        and payload = "''payload''" and st = "0::nat" and st' = 1
        and str = "''c2lnbmF0dXJl''" and signature = "JStr ''c2lnbmF0dXJl''"]
    Ed25519_adapter
      [where signer =
          "\<lambda>p st. (Inr (JObj [(''r'', JBytes [1, 2, 3]), (''s'', JBytes [4, 5, 6])]), Suc st)"
        and payload = "''payload''" and st = "0::nat" and st' = 1
        and ps = "[(''r'', JBytes [1, 2, 3]), (''s'', JBytes [4, 5, 6])]"
        and signature = "JObj [(''r'', JBytes [1, 2, 3]), (''s'', JBytes [4, 5, 6])]"]
  by simp

text \<open>
  C8. Every built-in adapter, that is every function \<open>a\<close> the initial registry holds
  under some name, invokes the signer it is given exactly once, on the payload, and does
  not retry: the state of the signer after the adapter is its state after one call, a
  counter of the signer's invocations goes up by exactly one, and when the signer fails
  the adapter fails with that same error, so that no signature is produced.
\<close>

theorem builtin_adapters_call_signer_once:
  assumes "algorithms u alg = Some (Fn a)"
  shows
    "snd (a payload signer st) = snd (signer payload st) \<and>
     snd (a payload (counting signer') (n, st')) = (Suc n, snd (signer' payload st')) \<and>
     (fst (signer payload st) = Inl e \<longrightarrow> fst (a payload signer st) = Inl e)"
proof -
  have once: "snd (a payload sg s0) = snd (sg payload s0) \<and>
      (fst (sg payload s0) = Inl e \<longrightarrow> fst (a payload sg s0) = Inl e)" for sg s0
    using algorithms_entries [OF assms]
      ES256SignerAlg_once [of u payload sg s0 e]
      ES256KSignerAlg_once [of u None payload sg s0 e]
      ES256KSignerAlg_once [of u "Some True" payload sg s0 e]
      Ed25519SignerAlg_once [of payload sg s0 e]
    by blast
  from once [of signer st] once [of "counting signer'" "(n, st')"] show ?thesis
    by (simp add: counting_snd)
qed

theorem builtin_adapters_call_signer_once_witness:
  "algorithms spec_util ''ES256K-R'' =
     Some (Fn (ES256KSignerAlg spec_util (Some True) :: (nat \<times> unit) SignerAlgorithm)) \<and>
   snd (ES256KSignerAlg spec_util (Some True) ''payload''
          (counting (\<lambda>p st. (Inl (Error ''key store unreachable''), st))) (0, ())) =
     (1, ()) \<and>
   fst (ES256KSignerAlg spec_util (Some True) ''payload''
          (counting (\<lambda>p st. (Inl (Error ''key store unreachable''), st))) (0, ())) =
     Inl (Error ''key store unreachable'')"
  using builtin_adapters_call_signer_once
    [where u = spec_util and alg = "''ES256K-R''"
      and a = "ES256KSignerAlg spec_util (Some True)" and payload = "''payload''"
      and signer = "counting (\<lambda>p st. (Inl (Error ''key store unreachable''), st))"
      and st = "(0, ())" and signer' = "\<lambda>p st. (Inl (Error ''key store unreachable''), st)"
      and n = 0 and st' = "()" and e = "Error ''key store unreachable''"]
  by (simp add: algorithms_builtin counting_def)

text \<open>
  C9. \<open>instanceOfEcdsaSignature\<close> classifies a signer's result as a structured signature
  exactly when it is an object that has both an \<open>r\<close> and an \<open>s\<close> property. Hence an
  object that lacks \<open>r\<close> or lacks \<open>s\<close> (and likewise a byte array) is taken by the
  \<open>ES256\<close> and \<open>ES256K\<close> adapters for a pre-encoded signature: it is returned unchanged,
  although it is not a string, and is not rejected.
\<close>

theorem EcdsaSignature_classification:
  "(instanceOfEcdsaSignature v = Inr True \<longleftrightarrow>
      (\<exists>ps. v = JObj ps \<and> ''r'' \<in> fst ` set ps \<and> ''s'' \<in> fst ` set ps)) \<and>
   ((v = JObj ps \<and> \<not> (''r'' \<in> fst ` set ps \<and> ''s'' \<in> fst ` set ps) \<or> v = JBytes bs) \<and>
    signer payload st = (Inr v, st') \<longrightarrow>
      ES256SignerAlg u payload signer st = (Inr v, st') \<and>
      ES256KSignerAlg u None payload signer st = (Inr v, st'))"
  using instanceOfEcdsaSignature_True_iff [of v]
  by (auto simp: ES256SignerAlg_def ES256KSignerAlg_def instanceOfEcdsaSignature_JObj
      instanceOfEcdsaSignature_JBytes)

theorem EcdsaSignature_classification_witness:
  "instanceOfEcdsaSignature (JObj [(''r'', JBytes [1, 2, 3])]) \<noteq> Inr True \<and>
   ES256SignerAlg spec_util ''payload''
     (\<lambda>p st. (Inr (JObj [(''r'', JBytes [1, 2, 3])]), Suc st)) (0::nat) =
     (Inr (JObj [(''r'', JBytes [1, 2, 3])]), 1) \<and>
   ES256KSignerAlg spec_util None ''payload''
     (\<lambda>p st. (Inr (JObj [(''r'', JBytes [1, 2, 3])]), Suc st)) (0::nat) =
     (Inr (JObj [(''r'', JBytes [1, 2, 3])]), 1)"
  using EcdsaSignature_classification
    [where v = "JObj [(''r'', JBytes [1, 2, 3])]" and ps = "[(''r'', JBytes [1, 2, 3])]"
      and signer = "\<lambda>p st. (Inr (JObj [(''r'', JBytes [1, 2, 3])]), Suc st)"
      and payload = "''payload''" and st = "0::nat" and st' = 1 and u = spec_util]
  by simp

end
